theory Spec2Isabelle
  imports Main "HOL-Library.Log_Nat"
begin

section \<open>Strings\<close>

text \<open>
  A Python \<open>str\<close> is a sequence of Unicode code points; it is modelled as the list of
  its code points. The literals of \<open>learning_decision.py\<close> are written out below, one
  constant per literal, in hexadecimal.
\<close>

type_synonym ustring = "nat list"

text \<open>
  The options of the selectbox for the daily study time (source lines 19 and 71): under one
  hour, one to two hours, two to four hours, over four hours.
\<close>

definition time_lt1h :: ustring where
  "time_lt1h = [0x0031, 0x5C0F, 0x65F6, 0x4EE5, 0x4E0B]"

definition time_1to2h :: ustring where
  "time_1to2h = [0x0031, 0x002D, 0x0032, 0x5C0F, 0x65F6]"

definition time_2to4h :: ustring where
  "time_2to4h = [0x0032, 0x002D, 0x0034, 0x5C0F, 0x65F6]"

definition time_gt4h :: ustring where
  "time_gt4h = [0x0034, 0x5C0F, 0x65F6, 0x4EE5, 0x4E0A]"

text \<open>
  The options for the knowledge level (source lines 24 and 81): none, beginner, intermediate,
  advanced.
\<close>

definition level_none :: ustring where
  "level_none = [0x96F6, 0x57FA, 0x7840]"

definition level_beginner :: ustring where
  "level_beginner = [0x521D, 0x7EA7]"

definition level_intermediate :: ustring where
  "level_intermediate = [0x4E2D, 0x7EA7]"

definition level_advanced :: ustring where
  "level_advanced = [0x9AD8, 0x7EA7]"

text \<open>
  The options for the urgency (source lines 28 and 115): relaxed, moderate, urgent.
\<close>

definition urgency_relaxed :: ustring where
  "urgency_relaxed = [0x5BBD, 0x677E]"

definition urgency_moderate :: ustring where
  "urgency_moderate = [0x4E2D, 0x7B49]"

definition urgency_urgent :: ustring where
  "urgency_urgent = [0x7D27, 0x6025]"

text \<open>
  The options for the learning style (source lines 29 and 106-109): visual, auditory,
  hands-on, reading.
\<close>

definition style_visual :: ustring where
  "style_visual = [0x89C6, 0x89C9, 0x578B]"

definition style_auditory :: ustring where
  "style_auditory = [0x542C, 0x89C9, 0x578B]"

definition style_handson :: ustring where
  "style_handson = [0x52A8, 0x624B, 0x578B]"

definition style_reading :: ustring where
  "style_reading = [0x9605, 0x8BFB, 0x578B]"

text \<open>
  The method tags (source lines 73, 77, 117, 83, 87, 93, 97, 101 and the keys of the table at
  lines 133-135): micro-learning, systematic learning, intensive training, layered teaching,
  project practice, free resources, paid courses, custom plan.
\<close>

definition m_micro :: ustring where
  "m_micro = [0x5FAE, 0x5B66, 0x4E60]"

definition m_systematic :: ustring where
  "m_systematic = [0x7CFB, 0x7EDF, 0x5B66, 0x4E60]"

definition m_intensive :: ustring where
  "m_intensive = [0x5F3A, 0x5316, 0x8BAD, 0x7EC3]"

definition m_layered :: ustring where
  "m_layered = [0x5206, 0x5C42, 0x6559, 0x5B66]"

definition m_project :: ustring where
  "m_project = [0x9879, 0x76EE, 0x5B9E, 0x8DF5]"

definition m_free :: ustring where
  "m_free = [0x514D, 0x8D39, 0x8D44, 0x6E90]"

definition m_paid :: ustring where
  "m_paid = [0x4ED8, 0x8D39, 0x8BFE, 0x7A0B]"

definition m_custom :: ustring where
  "m_custom = [0x5B9A, 0x5236, 0x65B9, 0x6848]"

text \<open>
  The values of the dictionary \<open>style_adaptations\<close> (source lines 106-109).
\<close>

definition adapt_visual :: ustring where
  "adapt_visual = [0x002B, 0x0020, 0x56FE, 0x6587, 0x89C6, 0x9891, 0x8D44, 0x6599]"

definition adapt_auditory :: ustring where
  "adapt_auditory = [0x002B, 0x0020, 0x97F3, 0x9891, 0x8BFE, 0x7A0B, 0x64AD, 0x5BA2]"

definition adapt_handson :: ustring where
  "adapt_handson = [0x002B, 0x0020, 0x5B9E, 0x8DF5, 0x9879, 0x76EE]"

definition adapt_reading :: ustring where
  "adapt_reading = [0x002B, 0x0020, 0x7535, 0x5B50, 0x4E66, 0x6587, 0x6863]"

text \<open>
  The reasoning lines (source lines 72, 76, 82, 86, 92, 96, 100, 116), the two constant parts
  of the f-string of line 112 around \<open>{style}\<close>, and the separator of the f-string
  of line 123.
\<close>

definition msg_time_limited :: ustring where
  "msg_time_limited = [0x23F0, 0x0020, 0x002A, 0x002A, 0x65F6, 0x95F4, 0x5206, 0x6790, 0x002A, 0x002A, 0x003A,
    0x0020, 0x6BCF, 0x65E5, 0x53EF, 0x7528, 0x65F6, 0x95F4, 0x6709, 0x9650, 0xFF0C, 0x63A8,
    0x8350, 0x788E, 0x7247, 0x5316, 0x5B66, 0x4E60, 0x65B9, 0x6848]"

definition msg_time_ample :: ustring where
  "msg_time_ample = [0x23F0, 0x0020, 0x002A, 0x002A, 0x65F6, 0x95F4, 0x5206, 0x6790, 0x002A, 0x002A, 0x003A,
    0x0020, 0x6BCF, 0x65E5, 0x5B66, 0x4E60, 0x65F6, 0x95F4, 0x5145, 0x8DB3, 0xFF0C, 0x9002,
    0x5408, 0x7CFB, 0x7EDF, 0x5316, 0x6DF1, 0x5EA6, 0x5B66, 0x4E60]"

definition msg_level_weak :: ustring where
  "msg_level_weak = [0x1F393, 0x0020, 0x002A, 0x002A, 0x57FA, 0x7840, 0x5206, 0x6790, 0x002A, 0x002A,
    0x003A, 0x0020, 0x5F53, 0x524D, 0x57FA, 0x7840, 0x8F83, 0x5F31, 0xFF0C, 0x9700, 0x8981,
    0x5206, 0x5C42, 0x6E10, 0x8FDB, 0x5F0F, 0x6559, 0x5B66]"

definition msg_level_solid :: ustring where
  "msg_level_solid = [0x1F393, 0x0020, 0x002A, 0x002A, 0x57FA, 0x7840, 0x5206, 0x6790, 0x002A, 0x002A,
    0x003A, 0x0020, 0x5DF2, 0x6709, 0x624E, 0x5B9E, 0x57FA, 0x7840, 0xFF0C, 0x9002, 0x5408,
    0x9879, 0x76EE, 0x9A71, 0x52A8, 0x5B66, 0x4E60]"

definition msg_budget_low :: ustring where
  "msg_budget_low = [0x1F4B0, 0x0020, 0x002A, 0x002A, 0x9884, 0x7B97, 0x5206, 0x6790, 0x002A, 0x002A,
    0x003A, 0x0020, 0x9884, 0x7B97, 0x6709, 0x9650, 0xFF0C, 0x4F18, 0x5148, 0x5229, 0x7528,
    0x514D, 0x8D39, 0x4F18, 0x8D28, 0x8D44, 0x6E90]"

definition msg_budget_mid :: ustring where
  "msg_budget_mid = [0x1F4B0, 0x0020, 0x002A, 0x002A, 0x9884, 0x7B97, 0x5206, 0x6790, 0x002A, 0x002A,
    0x003A, 0x0020, 0x9884, 0x7B97, 0x9002, 0x4E2D, 0xFF0C, 0x53EF, 0x9009, 0x62E9, 0x6027,
    0x8D2D, 0x4E70, 0x4ED8, 0x8D39, 0x8BFE, 0x7A0B]"

definition msg_budget_high :: ustring where
  "msg_budget_high = [0x1F4B0, 0x0020, 0x002A, 0x002A, 0x9884, 0x7B97, 0x5206, 0x6790, 0x002A, 0x002A,
    0x003A, 0x0020, 0x9884, 0x7B97, 0x5145, 0x8DB3, 0xFF0C, 0x63A8, 0x8350, 0x9AD8, 0x7AEF,
    0x5B9A, 0x5236, 0x65B9, 0x6848]"

definition msg_style_prefix :: ustring where
  "msg_style_prefix = [0x1F3A8, 0x0020, 0x002A, 0x002A, 0x98CE, 0x683C, 0x9002, 0x914D, 0x002A, 0x002A,
    0x003A, 0x0020, 0x68C0, 0x6D4B, 0x5230]"

definition msg_style_suffix :: ustring where
  "msg_style_suffix = [0x5B66, 0x4E60, 0x504F, 0x597D]"

definition msg_urgent :: ustring where
  "msg_urgent = [0x26A1, 0x0020, 0x002A, 0x002A, 0x7D27, 0x8FEB, 0x5EA6, 0x002A, 0x002A, 0x003A, 0x0020,
    0x5B66, 0x4E60, 0x76EE, 0x6807, 0x7D27, 0x8FEB, 0xFF0C, 0x63A8, 0x8350, 0x5F3A, 0x5316,
    0x8BAD, 0x7EC3, 0x6A21, 0x5F0F]"

definition plus_sep :: ustring where
  "plus_sep = [0x0020, 0x002B, 0x0020]"
section \<open>Binary64 arithmetic\<close>

text \<open>
  The scores are Python floats (IEEE 754 binary64) and \<open>np.mean\<close> computes in binary64.
  A finite double is modelled by the rational number it denotes. Every operation is the
  exact operation followed by rounding to the nearest number with a 53-bit significand,
  ties to even. The model covers the normal range only (no overflow to infinity, no
  subnormal numbers, no NaN); all values that occur in \<open>analyze_learning_path\<close> lie
  between \<open>1/2\<close> and \<open>100\<close>.
\<close>

type_synonym double = rat

definition round_half_even :: "rat \<Rightarrow> int" where
  "round_half_even x =
     (let f = \<lfloor>x\<rfloor>; r = x - of_int f
      in if r < 1 / 2 then f else if 1 / 2 < r then f + 1 else if even f then f else f + 1)"

text \<open>\<open>pow2 e\<close> is the power of two \<open>2 powi e\<close> for an integer exponent.\<close>

definition pow2 :: "int \<Rightarrow> rat" where
  "pow2 e = (if 0 \<le> e then of_int (2 ^ nat e) else Fract 1 (2 ^ nat (- e)))"

text \<open>\<open>binade x\<close> is the exponent \<open>e\<close> with \<open>pow2 e \<le> x < pow2 (e + 1)\<close>, for \<open>0 < x\<close>.\<close>

definition binade :: "rat \<Rightarrow> int" where
  "binade x =
     (let (p, q) = quotient_of x; e = bitlen p - bitlen q
      in if pow2 e \<le> x then e else e - 1)"

definition round_double :: "rat \<Rightarrow> double" where
  "round_double x =
     (if x = 0 then 0
      else let e = binade \<bar>x\<bar> - 52;
               n = round_half_even (\<bar>x\<bar> / pow2 e)
           in of_int (if x < 0 then - n else n) * pow2 e)"

definition dadd :: "double \<Rightarrow> double \<Rightarrow> double" where
  "dadd x y = round_double (x + y)"

definition dmul :: "double \<Rightarrow> double \<Rightarrow> double" where
  "dmul x y = round_double (x * y)"

definition ddiv :: "double \<Rightarrow> double \<Rightarrow> double" where
  "ddiv x y = round_double (x / y)"

text \<open>The float literals \<open>0.5\<close>, \<open>0.6\<close>, \<open>0.7\<close>, \<open>0.8\<close>, \<open>0.9\<close> of the source.\<close>

definition f0_5 :: double where "f0_5 = round_double (5 / 10)"
definition f0_6 :: double where "f0_6 = round_double (6 / 10)"
definition f0_7 :: double where "f0_7 = round_double (7 / 10)"
definition f0_8 :: double where "f0_8 = round_double (8 / 10)"
definition f0_9 :: double where "f0_9 = round_double (9 / 10)"

text \<open>
  \<open>np.mean\<close> of a list of floats is \<open>np.add.reduce\<close> of the array divided by the
  number of elements; the mean of an empty list is NaN, here \<open>None\<close>. The reduction is
  the pairwise summation of NumPy: fewer than eight elements are added from left to right,
  starting from \<open>0.0\<close>; up to 128 elements are added into eight accumulators, which are
  then combined as a balanced tree, and the elements after the last full block of eight
  are added to the result one by one; a longer array is split near the middle, at a
  multiple of eight, and the sums of the two parts are added.
\<close>

fun add_blocks :: "double list \<Rightarrow> double list \<Rightarrow> double list" where
  "add_blocks r ys =
     (if length ys < 8 then r else add_blocks (map2 dadd r (take 8 ys)) (drop 8 ys))"

definition block_sum :: "double list \<Rightarrow> double" where
  "block_sum xs =
     (let m = length xs - length xs mod 8;
          r = add_blocks (take 8 xs) (drop 8 (take m xs));
          res = dadd (dadd (dadd (r ! 0) (r ! 1)) (dadd (r ! 2) (r ! 3)))
                     (dadd (dadd (r ! 4) (r ! 5)) (dadd (r ! 6) (r ! 7)))
      in foldl dadd res (drop m xs))"

definition split_point :: "nat \<Rightarrow> nat" where
  "split_point n = n div 2 - (n div 2) mod 8"

function pairwise_sum :: "double list \<Rightarrow> double" where
  "pairwise_sum xs =
     (if length xs < 8 then foldl dadd 0 xs
      else if length xs \<le> 128 then block_sum xs
      else dadd (pairwise_sum (take (split_point (length xs)) xs))
                (pairwise_sum (drop (split_point (length xs)) xs)))"
  by pat_completeness auto
termination
proof (relation "measure length")
  show "wf (measure length)" by simp
next
  fix xs :: "double list"
  assume "\<not> length xs < 8" "\<not> length xs \<le> 128"
  then show "(take (split_point (length xs)) xs, xs) \<in> measure length"
    by (simp add: split_point_def)
next
  fix xs :: "double list"
  assume "\<not> length xs < 8" "\<not> length xs \<le> 128"
  then have "0 < split_point (length xs)"
    unfolding split_point_def by linarith
  then show "(drop (split_point (length xs)) xs, xs) \<in> measure length"
    using \<open>\<not> length xs < 8\<close> by simp
qed

declare add_blocks.simps [simp del]

declare pairwise_sum.simps [simp del]

definition np_mean :: "double list \<Rightarrow> double option" where
  "np_mean xs =
     (if xs = [] then None else Some (ddiv (pairwise_sum xs) (of_nat (length xs))))"

text \<open>\<open>int(x)\<close> of a float truncates towards zero.\<close>

definition py_int :: "double \<Rightarrow> int" where
  "py_int x = (if 0 \<le> x then \<lfloor>x\<rfloor> else \<lceil>x\<rceil>)"

section \<open>The recommendation engine\<close>

datatype error = KeyError ustring | ValueError

text \<open>
  The local variables of \<open>analyze_learning_path\<close>. Python leaves a local unbound until
  its first assignment; every path assigns each of them before it is read, so the initial
  value \<open>[]\<close> of the method fields is never observed.
\<close>

record locals =
  reasoning :: "ustring list"
  scores :: "double list"
  base_method :: ustring
  knowledge_method :: ustring
  budget_method :: ustring
  style_adapt :: ustring

definition init_locals :: locals where
  "init_locals =
     \<lparr>reasoning = [], scores = [], base_method = [], knowledge_method = [],
      budget_method = [], style_adapt = []\<rparr>"

text \<open>Source lines 70-78.\<close>

definition time_factor :: "ustring \<Rightarrow> locals \<Rightarrow> locals" where
  "time_factor time s =
     (if time \<in> set [time_lt1h, time_1to2h]
      then s\<lparr>reasoning := reasoning s @ [msg_time_limited],
             base_method := m_micro,
             scores := scores s @ [f0_7]\<rparr>
      else s\<lparr>reasoning := reasoning s @ [msg_time_ample],
             base_method := m_systematic,
             scores := scores s @ [f0_9]\<rparr>)"

text \<open>Source lines 80-88.\<close>

definition level_factor :: "ustring \<Rightarrow> locals \<Rightarrow> locals" where
  "level_factor level s =
     (if level \<in> set [level_none, level_beginner]
      then s\<lparr>reasoning := reasoning s @ [msg_level_weak],
             knowledge_method := m_layered,
             scores := scores s @ [f0_6]\<rparr>
      else s\<lparr>reasoning := reasoning s @ [msg_level_solid],
             knowledge_method := m_project,
             scores := scores s @ [f0_8]\<rparr>)"

text \<open>Source lines 90-102.\<close>

definition budget_factor :: "int \<Rightarrow> locals \<Rightarrow> locals" where
  "budget_factor budget s =
     (if budget < 300
      then s\<lparr>reasoning := reasoning s @ [msg_budget_low],
             budget_method := m_free,
             scores := scores s @ [f0_5]\<rparr>
      else if budget < 1000
      then s\<lparr>reasoning := reasoning s @ [msg_budget_mid],
             budget_method := m_paid,
             scores := scores s @ [f0_7]\<rparr>
      else s\<lparr>reasoning := reasoning s @ [msg_budget_high],
             budget_method := m_custom,
             scores := scores s @ [f0_9]\<rparr>)"

text \<open>
  Source lines 104-112. The dictionary is indexed with \<open>style_adaptations[style]\<close>,
  which raises \<open>KeyError\<close> for a key that is absent.
\<close>

definition style_adaptations :: "(ustring \<times> ustring) list" where
  "style_adaptations =
     [(style_visual, adapt_visual), (style_auditory, adapt_auditory),
      (style_handson, adapt_handson), (style_reading, adapt_reading)]"

definition style_factor :: "ustring \<Rightarrow> locals \<Rightarrow> error + locals" where
  "style_factor style s =
     (case map_of style_adaptations style of
        None \<Rightarrow> Inl (KeyError style)
      | Some a \<Rightarrow>
          Inr (s\<lparr>style_adapt := a,
                 reasoning := reasoning s @ [msg_style_prefix @ style @ msg_style_suffix]\<rparr>))"

text \<open>Source lines 114-120.\<close>

definition urgency_factor :: "ustring \<Rightarrow> locals \<Rightarrow> locals" where
  "urgency_factor urgency s =
     (if urgency = urgency_urgent
      then s\<lparr>reasoning := reasoning s @ [msg_urgent],
             base_method := m_intensive,
             scores := scores s @ [f0_8]\<rparr>
      else s\<lparr>scores := scores s @ [f0_6]\<rparr>)"

text \<open>The local variables when the function reaches line 122.\<close>

definition analyze_locals ::
  "ustring \<Rightarrow> ustring \<Rightarrow> int \<Rightarrow> ustring \<Rightarrow> ustring \<Rightarrow> error + locals" where
  "analyze_locals time level budget urgency style =
     (case style_factor style
             (budget_factor budget (level_factor level (time_factor time init_locals))) of
        Inl e \<Rightarrow> Inl e
      | Inr s \<Rightarrow> Inr (urgency_factor urgency s))"

text \<open>Source line 123.\<close>

definition recommendation :: "locals \<Rightarrow> ustring" where
  "recommendation s =
     base_method s @ plus_sep @ knowledge_method s @ plus_sep @ budget_method s"

text \<open>
  Source line 126: \<open>int(np.mean(scores) * 100)\<close>. \<open>int\<close> of NaN raises
  \<open>ValueError\<close>.
\<close>

definition confidence :: "double list \<Rightarrow> error + int" where
  "confidence xs =
     (case np_mean xs of
        None \<Rightarrow> Inl ValueError
      | Some m \<Rightarrow> Inr (py_int (dmul m 100)))"

definition analyze_learning_path ::
  "ustring \<Rightarrow> ustring \<Rightarrow> int \<Rightarrow> ustring \<Rightarrow> ustring \<Rightarrow> error + ustring \<times> int \<times> ustring list" where
  "analyze_learning_path time level budget urgency style =
     (case analyze_locals time level budget urgency style of
        Inl e \<Rightarrow> Inl e
      | Inr s \<Rightarrow>
          (case confidence (scores s) of
             Inl e \<Rightarrow> Inl e
           | Inr c \<Rightarrow> Inr (recommendation s, c, reasoning s)))"

text \<open>
  Repeated calls. Python runs each call in a frame of its own, whose local variables are
  unbound at entry. The model below starts a call in an arbitrary frame, for instance
  the one that an earlier call left behind, runs lines 67-128 on it, and returns what the
  call returns or raises together with the frame at that point. A local that the function
  read before assigning it would carry a value from one call into the next.
\<close>

definition call_in_frame ::
  "locals \<Rightarrow> ustring \<Rightarrow> ustring \<Rightarrow> int \<Rightarrow> ustring \<Rightarrow> ustring
     \<Rightarrow> (error + ustring \<times> int \<times> ustring list) \<times> locals" where
  "call_in_frame frame time level budget urgency style =
     (let s0 = frame\<lparr>reasoning := [], scores := []\<rparr>;
          s1 = budget_factor budget (level_factor level (time_factor time s0))
      in case style_factor style s1 of
           Inl e \<Rightarrow> (Inl e, s1)
         | Inr s2 \<Rightarrow>
             (let s3 = urgency_factor urgency s2
              in case confidence (scores s3) of
                   Inl e \<Rightarrow> (Inl e, s3)
                 | Inr c \<Rightarrow> (Inr (recommendation s3, c, reasoning s3), s3)))"

text \<open>A run of calls, each in the frame that the call before it left.\<close>

fun run_calls ::
  "locals \<Rightarrow> (ustring \<times> ustring \<times> int \<times> ustring \<times> ustring) list
     \<Rightarrow> (error + ustring \<times> int \<times> ustring list) list" where
  "run_calls frame [] = []"
| "run_calls frame ((time, level, budget, urgency, style) # calls) =
     (case call_in_frame frame time level budget urgency style of
        (result, frame') \<Rightarrow> result # run_calls frame' calls)"

text \<open>
  The confidence as the specification words it: the mean of the scores times 100, rounded
  to an integer by a rounding rule (half to even, or half up).
\<close>

definition round_half_up :: "rat \<Rightarrow> int" where
  "round_half_up x = \<lfloor>x + 1 / 2\<rfloor>"

definition spec_confidence :: "(rat \<Rightarrow> int) \<Rightarrow> double list \<Rightarrow> error + int" where
  "spec_confidence rnd xs =
     (case np_mean xs of
        None \<Rightarrow> Inl ValueError
      | Some m \<Rightarrow> Inr (rnd (dmul m 100)))"

text \<open>
  The inputs that \<open>main\<close> can pass (source lines 17-29): one option of each selectbox and
  a slider value between 0 and 2000.
\<close>

definition in_domain :: "ustring \<Rightarrow> ustring \<Rightarrow> int \<Rightarrow> ustring \<Rightarrow> ustring \<Rightarrow> bool" where
  "in_domain time level budget urgency style \<longleftrightarrow>
     time \<in> set [time_lt1h, time_1to2h, time_2to4h, time_gt4h] \<and>
     level \<in> set [level_none, level_beginner, level_intermediate, level_advanced] \<and>
     0 \<le> budget \<and> budget \<le> 2000 \<and>
     urgency \<in> set [urgency_relaxed, urgency_moderate, urgency_urgent] \<and>
     style \<in> set [style_visual, style_auditory, style_handson, style_reading]"

section \<open>Expected effectiveness\<close>

text \<open>\<open>key in method\<close> on strings: \<open>key\<close> occurs in \<open>method\<close> as a contiguous run.\<close>

fun starts_with :: "ustring \<Rightarrow> ustring \<Rightarrow> bool" where
  "starts_with [] ys = True"
| "starts_with (x # xs) [] = False"
| "starts_with (x # xs) (y # ys) = (x = y \<and> starts_with xs ys)"

fun str_in :: "ustring \<Rightarrow> ustring \<Rightarrow> bool" where
  "str_in key [] = (key = [])"
| "str_in key (c # cs) = (starts_with key (c # cs) \<or> str_in key cs)"

text \<open>The dictionary of source lines 132-136, in insertion order (the order of the loop).\<close>

definition effectiveness_scores :: "(ustring \<times> int) list" where
  "effectiveness_scores =
     [(m_micro, 70), (m_systematic, 85), (m_intensive, 90),
      (m_layered, 80), (m_project, 85),
      (m_free, 65), (m_paid, 80), (m_custom, 90)]"

text \<open>Source lines 137-141: the loop over the keys, as a left fold from the score 70.\<close>

definition calculate_expected_effectiveness :: "ustring \<Rightarrow> int" where
  "calculate_expected_effectiveness method =
     foldl (\<lambda>score (key, v). if str_in key method then max score v else score)
       70 effectiveness_scores"

section \<open>The rounding, checked\<close>

text \<open>
  The rounding of a positive number is an integer of 53 bits times a power of two, at most
  half a unit in the last place away from the number. The literals and the sums below agree
  with \<open>float.as_integer_ratio\<close> of Python.
\<close>

lemma pow2_powi: "pow2 e = 2 powi e"
  by (simp add: pow2_def power_int_def Fract_of_int_quotient inverse_eq_divide power_one_over)

lemma binade_bounds:
  assumes "0 < x"
  shows "pow2 (binade x) \<le> x \<and> x < pow2 (binade x + 1)"
proof -
  obtain p q where pq: "quotient_of x = (p, q)" by (cases "quotient_of x")
  then have q: "0 < q" and x: "x = of_int p / of_int q"
    by (auto simp: quotient_of_denom_pos quotient_of_div)
  with assms have p: "0 < p"
    by (simp add: zero_less_divide_iff)
  define a where "a = bitlen p"
  define b where "b = bitlen q"
  define P :: rat where "P = of_int p"
  define Q :: rat where "Q = of_int q"
  have a: "1 \<le> a" and b: "1 \<le> b" using p q by (auto simp: a_def b_def bitlen_alt_def)
  have int_bounds: "2 ^ nat (a - 1) \<le> p" "p < 2 ^ nat a" "2 ^ nat (b - 1) \<le> q" "q < 2 ^ nat b"
    using bitlen_bounds [OF p] bitlen_bounds [OF q] by (simp_all add: a_def b_def)
  have pw: "\<And>n::int. 0 \<le> n \<Longrightarrow> (2::rat) powi n = of_int (2 ^ nat n)"
    by (simp add: power_int_def)
  have P: "2 powi (a - 1) \<le> P" "P < 2 powi a"
    using int_bounds(1,2) a unfolding P_def by (simp_all add: pw del: of_int_power)
  have Q: "2 powi (b - 1) \<le> Q" "Q < 2 powi b"
    using int_bounds(3,4) b unfolding Q_def by (simp_all add: pw del: of_int_power)
  have Qpos: "0 < Q" and Ppos: "0 < P" using p q by (simp_all add: P_def Q_def)
  have "P / Q \<le> P / 2 powi (b - 1)"
    using Q(1) Ppos by (simp add: frac_le)
  also have "\<dots> < 2 powi a / 2 powi (b - 1)"
    using P(2) by (simp add: divide_strict_right_mono)
  also have "\<dots> = 2 powi (a - (b - 1))"
    by (simp only: power_int_diff [of "2::rat", symmetric, simplified])
  also have "a - (b - 1) = a - b + 1"
    by simp
  finally have upper: "x < 2 powi (a - b + 1)" by (simp add: x P_def Q_def)
  have "a - b - 1 = (a - 1) - b"
    by simp
  then have "2 powi (a - b - 1) = 2 powi (a - 1) / (2::rat) powi b"
    by (simp only: power_int_diff [of "2::rat", symmetric, simplified])
  also have "\<dots> \<le> P / 2 powi b"
    using P(1) by (simp add: divide_right_mono)
  also have "\<dots> < P / Q"
    using Q(2) Ppos Qpos by (simp add: frac_less2)
  finally have lower: "2 powi (a - b - 1) < x" by (simp add: x P_def Q_def)
  have "binade x = (if 2 powi (a - b) \<le> x then a - b else a - b - 1)"
    by (simp add: binade_def pq a_def b_def pow2_powi)
  with upper lower show ?thesis
    by (auto simp: pow2_powi)
qed

lemma round_half_even_near: "\<bar>of_int (round_half_even y) - y\<bar> \<le> 1 / 2"
proof -
  have "of_int \<lfloor>y\<rfloor> \<le> y" "y < of_int \<lfloor>y\<rfloor> + 1"
    by linarith+
  then show ?thesis
    by (auto simp: round_half_even_def Let_def abs_le_iff)
qed

lemma round_double_nearest:
  assumes "0 < x"
  defines "e \<equiv> binade x - 52"
  defines "n \<equiv> round_half_even (x / pow2 e)"
  shows "round_double x = of_int n * 2 powi e"
    and "2 ^ 52 \<le> n" and "n \<le> 2 ^ 53"
    and "\<bar>round_double x - x\<bar> \<le> 2 powi e / 2"
proof -
  have pos: "(0::rat) < 2 powi e" by simp
  show eq: "round_double x = of_int n * 2 powi e"
    using assms(1) by (simp add: round_double_def Let_def e_def n_def pow2_powi)
  from binade_bounds [OF assms(1)]
  have "2 powi (e + 52) \<le> x" "x < 2 powi (e + 52 + 1)"
    by (simp_all add: e_def pow2_powi)
  then have "2 powi e * 2 ^ 52 \<le> x" "x < 2 powi e * 2 ^ 53"
    by (simp_all add: power_int_add)
  then have y: "2 ^ 52 \<le> x / 2 powi e" "x / 2 powi e < 2 ^ 53"
    using pos by (simp_all add: pos_le_divide_eq pos_divide_less_eq mult.commute)
  have near: "\<bar>of_int n - x / 2 powi e\<bar> \<le> 1 / 2"
    unfolding n_def pow2_powi by (rule round_half_even_near)
  from y near have "(2::rat) ^ 52 - 1 < of_int n" "of_int n < (2::rat) ^ 53 + 1"
    by linarith+
  then have "rat_of_int (2 ^ 52 - 1) < of_int n" "rat_of_int n < of_int (2 ^ 53 + 1)"
    by simp_all
  then have "2 ^ 52 - 1 < n" "n < 2 ^ 53 + 1"
    by (simp_all only: of_int_less_iff)
  then show "2 ^ 52 \<le> n" "n \<le> 2 ^ 53"
    by simp_all
  have "round_double x - x = (of_int n - x / 2 powi e) * 2 powi e"
    using pos by (simp add: eq field_simps)
  then have "\<bar>round_double x - x\<bar> = \<bar>of_int n - x / 2 powi e\<bar> * 2 powi e"
    by (simp add: abs_mult)
  also have "\<dots> \<le> 1 / 2 * 2 powi e"
    using near pos by (simp add: mult_right_mono del: times_divide_eq_left)
  finally show "\<bar>round_double x - x\<bar> \<le> 2 powi e / 2"
    by simp
qed

lemma literal_values:
  "f0_5 = 1 / 2"
  "f0_6 = 5404319552844595 / 9007199254740992"
  "f0_7 = 3152519739159347 / 4503599627370496"
  "f0_8 = 3602879701896397 / 4503599627370496"
  "f0_9 = 8106479329266893 / 9007199254740992"
  by code_simp+

lemma example_sum:
  "foldl dadd 0 [f0_7, f0_6, f0_5, f0_8] = 1463669878895411 / 562949953421312"
  "np_mean [f0_7, f0_6, f0_5, f0_8] = Some (1463669878895411 / 2251799813685248)"
  "dmul (1463669878895411 / 2251799813685248) 100 = 4573968371548159 / 70368744177664"
  by code_simp+

text \<open>The order of the additions for eight and for nine elements.\<close>

lemma pairwise_sum_eight:
  "pairwise_sum [a0, a1, a2, a3, a4, a5, a6, a7] =
     dadd (dadd (dadd a0 a1) (dadd a2 a3)) (dadd (dadd a4 a5) (dadd a6 a7))"
  by (simp add: pairwise_sum.simps block_sum_def add_blocks.simps)

lemma pairwise_sum_nine:
  "pairwise_sum [a0, a1, a2, a3, a4, a5, a6, a7, a8] =
     dadd (dadd (dadd (dadd a0 a1) (dadd a2 a3)) (dadd (dadd a4 a5) (dadd a6 a7))) a8"
  by (simp add: pairwise_sum.simps block_sum_def add_blocks.simps)

lemma pairwise_sum_sixteen:
  "pairwise_sum [a0, a1, a2, a3, a4, a5, a6, a7, b0, b1, b2, b3, b4, b5, b6, b7] =
     dadd (dadd (dadd (dadd a0 b0) (dadd a1 b1)) (dadd (dadd a2 b2) (dadd a3 b3)))
          (dadd (dadd (dadd a4 b4) (dadd a5 b5)) (dadd (dadd a6 b6) (dadd a7 b7)))"
  by (simp add: pairwise_sum.simps block_sum_def add_blocks.simps)

section \<open>The engine, spelled out\<close>

text \<open>Fewer than eight elements are summed from left to right.\<close>

lemma pairwise_sum_short: "length xs < 8 \<Longrightarrow> pairwise_sum xs = foldl dadd 0 xs"
  by (simp add: pairwise_sum.simps)

lemma style_lookup:
  "map_of style_adaptations style \<noteq> None \<longleftrightarrow>
     style \<in> set [style_visual, style_auditory, style_handson, style_reading]"
  by (simp add: style_adaptations_def)

lemma in_domain_style:
  "in_domain time level budget urgency style \<Longrightarrow> \<exists>a. map_of style_adaptations style = Some a"
  using style_lookup [of style] by (auto simp: in_domain_def)

text \<open>The dictionary at its four keys, and the options that fall in no rule's list.\<close>

lemma style_keys:
  "map_of style_adaptations style_visual = Some adapt_visual"
  "map_of style_adaptations style_auditory = Some adapt_auditory"
  "map_of style_adaptations style_handson = Some adapt_handson"
  "map_of style_adaptations style_reading = Some adapt_reading"
  by (simp_all add: style_adaptations_def style_visual_def style_auditory_def
      style_handson_def style_reading_def)

lemma option_distinct:
  "time_2to4h \<noteq> time_lt1h" "time_2to4h \<noteq> time_1to2h"
  "time_gt4h \<noteq> time_lt1h" "time_gt4h \<noteq> time_1to2h"
  "level_intermediate \<noteq> level_none" "level_intermediate \<noteq> level_beginner"
  "level_advanced \<noteq> level_none" "level_advanced \<noteq> level_beginner"
  "urgency_relaxed \<noteq> urgency_urgent" "urgency_moderate \<noteq> urgency_urgent"
  by (simp_all add: time_lt1h_def time_1to2h_def time_2to4h_def time_gt4h_def
      level_none_def level_beginner_def level_intermediate_def level_advanced_def
      urgency_relaxed_def urgency_moderate_def urgency_urgent_def)

text \<open>The local variables at line 122, for a style that the dictionary knows.\<close>

lemma analyze_locals_Some:
  assumes "map_of style_adaptations style = Some a"
  shows "analyze_locals time level budget urgency style =
     Inr \<lparr>reasoning =
            [if time \<in> set [time_lt1h, time_1to2h] then msg_time_limited else msg_time_ample,
             if level \<in> set [level_none, level_beginner] then msg_level_weak else msg_level_solid,
             if budget < 300 then msg_budget_low
             else if budget < 1000 then msg_budget_mid else msg_budget_high,
             msg_style_prefix @ style @ msg_style_suffix]
            @ (if urgency = urgency_urgent then [msg_urgent] else []),
          scores =
            [if time \<in> set [time_lt1h, time_1to2h] then f0_7 else f0_9,
             if level \<in> set [level_none, level_beginner] then f0_6 else f0_8,
             if budget < 300 then f0_5 else if budget < 1000 then f0_7 else f0_9,
             if urgency = urgency_urgent then f0_8 else f0_6],
          base_method =
            (if urgency = urgency_urgent then m_intensive
             else if time \<in> set [time_lt1h, time_1to2h] then m_micro else m_systematic),
          knowledge_method =
            (if level \<in> set [level_none, level_beginner] then m_layered else m_project),
          budget_method =
            (if budget < 300 then m_free else if budget < 1000 then m_paid else m_custom),
          style_adapt = a\<rparr>"
  using assms
  by (simp add: analyze_locals_def style_factor_def urgency_factor_def budget_factor_def
      level_factor_def time_factor_def init_locals_def)

lemma analyze_locals_None:
  assumes "map_of style_adaptations style = None"
  shows "analyze_locals time level budget urgency style = Inl (KeyError style)"
  using assms by (simp add: analyze_locals_def style_factor_def)

lemma analyze_locals_scores:
  assumes "analyze_locals time level budget urgency style = Inr s"
  shows "scores s =
     [if time \<in> set [time_lt1h, time_1to2h] then f0_7 else f0_9,
      if level \<in> set [level_none, level_beginner] then f0_6 else f0_8,
      if budget < 300 then f0_5 else if budget < 1000 then f0_7 else f0_9,
      if urgency = urgency_urgent then f0_8 else f0_6]"
proof (cases "map_of style_adaptations style")
  case None
  with assms show ?thesis by (simp add: analyze_locals_None)
next
  case (Some a)
  with assms show ?thesis by (auto simp: analyze_locals_Some)
qed

text \<open>The comparisons between the five literals.\<close>

lemma literal_le:
  "f0_5 \<le> f0_5" "f0_5 \<le> f0_6" "f0_5 \<le> f0_7" "f0_5 \<le> f0_8" "f0_5 \<le> f0_9"
  "\<not> f0_6 \<le> f0_5" "f0_6 \<le> f0_6" "f0_6 \<le> f0_7" "f0_6 \<le> f0_8" "f0_6 \<le> f0_9"
  "\<not> f0_7 \<le> f0_5" "\<not> f0_7 \<le> f0_6" "f0_7 \<le> f0_7" "f0_7 \<le> f0_8" "f0_7 \<le> f0_9"
  "\<not> f0_8 \<le> f0_5" "\<not> f0_8 \<le> f0_6" "\<not> f0_8 \<le> f0_7" "f0_8 \<le> f0_8" "f0_8 \<le> f0_9"
  "\<not> f0_9 \<le> f0_5" "\<not> f0_9 \<le> f0_6" "\<not> f0_9 \<le> f0_7" "\<not> f0_9 \<le> f0_8" "f0_9 \<le> f0_9"
  by code_simp+

text \<open>
  The confidence of each list of scores that the four rules can produce, computed in
  binary64.
\<close>

lemma confidence_table:
  "confidence [f0_7, f0_6, f0_5, f0_8] = Inr 64"
  "confidence [f0_7, f0_6, f0_5, f0_6] = Inr 60"
  "confidence [f0_7, f0_6, f0_7, f0_8] = Inr 70"
  "confidence [f0_7, f0_6, f0_7, f0_6] = Inr 64"
  "confidence [f0_7, f0_6, f0_9, f0_8] = Inr 75"
  "confidence [f0_7, f0_6, f0_9, f0_6] = Inr 70"
  "confidence [f0_7, f0_8, f0_5, f0_8] = Inr 70"
  "confidence [f0_7, f0_8, f0_5, f0_6] = Inr 65"
  "confidence [f0_7, f0_8, f0_7, f0_8] = Inr 75"
  "confidence [f0_7, f0_8, f0_7, f0_6] = Inr 70"
  "confidence [f0_7, f0_8, f0_9, f0_8] = Inr 80"
  "confidence [f0_7, f0_8, f0_9, f0_6] = Inr 75"
  "confidence [f0_9, f0_6, f0_5, f0_8] = Inr 70"
  "confidence [f0_9, f0_6, f0_5, f0_6] = Inr 65"
  "confidence [f0_9, f0_6, f0_7, f0_8] = Inr 75"
  "confidence [f0_9, f0_6, f0_7, f0_6] = Inr 70"
  "confidence [f0_9, f0_6, f0_9, f0_8] = Inr 80"
  "confidence [f0_9, f0_6, f0_9, f0_6] = Inr 75"
  "confidence [f0_9, f0_8, f0_5, f0_8] = Inr 75"
  "confidence [f0_9, f0_8, f0_5, f0_6] = Inr 70"
  "confidence [f0_9, f0_8, f0_7, f0_8] = Inr 80"
  "confidence [f0_9, f0_8, f0_7, f0_6] = Inr 75"
  "confidence [f0_9, f0_8, f0_9, f0_8] = Inr 85"
  "confidence [f0_9, f0_8, f0_9, f0_6] = Inr 80"
  by code_simp+

text \<open>What the function returns for a style that the dictionary knows.\<close>

lemma analyze_learning_path_Some:
  assumes "analyze_locals time level budget urgency style = Inr s"
  shows "\<exists>c. confidence (scores s) = Inr c \<and>
     analyze_learning_path time level budget urgency style =
       Inr (recommendation s, c, reasoning s)"
proof -
  have "\<exists>c. confidence (scores s) = Inr c"
    unfolding analyze_locals_scores [OF assms]
    by (simp add: confidence_table)
  then show ?thesis
    using assms by (auto simp: analyze_learning_path_def)
qed

lemma confidence_values:
  assumes "analyze_locals time level budget urgency style = Inr s"
  shows "confidence (scores s) \<in> Inr ` {60, 64, 65, 70, 75, 80, 85}"
  unfolding analyze_locals_scores [OF assms]
  by (simp add: confidence_table)


text \<open>The confidence is monotone on the score lists that the rules can produce.\<close>

lemma confidence_table_monotone:
  "\<forall>a\<in>{f0_7, f0_9}. \<forall>b\<in>{f0_6, f0_8}. \<forall>c\<in>{f0_5, f0_7, f0_9}. \<forall>d\<in>{f0_8, f0_6}.
   \<forall>a'\<in>{f0_7, f0_9}. \<forall>b'\<in>{f0_6, f0_8}. \<forall>c'\<in>{f0_5, f0_7, f0_9}. \<forall>d'\<in>{f0_8, f0_6}.
     list_all2 (\<le>) [a, b, c, d] [a', b', c', d'] \<longrightarrow>
     projr (confidence [a, b, c, d]) \<le> projr (confidence [a', b', c', d'])"
  by (simp add: confidence_table literal_le)

text \<open>
  The outcome of a call does not depend on the frame in which it starts: lines 67-68 reset
  the two lists, and every other local is assigned before it is read.
\<close>

lemma call_in_frame_result:
  "fst (call_in_frame frame time level budget urgency style) =
     analyze_learning_path time level budget urgency style"
proof (cases "map_of style_adaptations style")
  case None
  then show ?thesis
    by (simp add: call_in_frame_def analyze_learning_path_def analyze_locals_None
        style_factor_def Let_def)
next
  case (Some a)
  let ?s1 = "budget_factor budget (level_factor level
      (time_factor time (frame\<lparr>reasoning := [], scores := []\<rparr>)))"
  let ?s3 = "urgency_factor urgency (?s1\<lparr>style_adapt := a,
      reasoning := reasoning ?s1 @ [msg_style_prefix @ style @ msg_style_suffix]\<rparr>)"
  obtain s where s: "analyze_locals time level budget urgency style = Inr s"
    by (simp add: analyze_locals_Some [OF Some])
  have "?s3 = projr (analyze_locals time level budget urgency style)"
    by (cases frame)
      (simp add: analyze_locals_Some [OF Some] urgency_factor_def budget_factor_def
        level_factor_def time_factor_def)
  with s have frame: "?s3 = s"
    by simp
  have "call_in_frame frame time level budget urgency style =
      (case confidence (scores ?s3) of
         Inl e \<Rightarrow> (Inl e, ?s3)
       | Inr c \<Rightarrow> (Inr (recommendation ?s3, c, reasoning ?s3), ?s3))"
    by (simp add: call_in_frame_def style_factor_def Some Let_def)
  then have "fst (call_in_frame frame time level budget urgency style) =
      (case confidence (scores s) of
         Inl e \<Rightarrow> Inl e
       | Inr c \<Rightarrow> Inr (recommendation s, c, reasoning s))"
    unfolding frame by (simp split: sum.splits)
  also have "\<dots> = analyze_learning_path time level budget urgency style"
    by (simp add: analyze_learning_path_def s)
  finally show ?thesis .
qed

lemma run_calls_map:
  "run_calls frame calls =
     map (\<lambda>(time, level, budget, urgency, style).
            analyze_learning_path time level budget urgency style) calls"
proof (induction calls arbitrary: frame)
  case Nil
  then show ?case by simp
next
  case (Cons call calls)
  obtain time level budget urgency style where call: "call = (time, level, budget, urgency, style)"
    by (cases call)
  obtain result frame' where
    r: "call_in_frame frame time level budget urgency style = (result, frame')"
    by (cases "call_in_frame frame time level budget urgency style")
  with call_in_frame_result [of frame time level budget urgency style]
  have "result = analyze_learning_path time level budget urgency style"
    by simp
  with r call Cons.IH [of frame'] show ?case
    by simp
qed

section \<open>Claims about \<open>analyze_learning_path\<close>\<close>

text \<open>
  C4. For a budget in the slider's range, the budget rule selects the tag and the score by
  the thresholds 300 and 1000: below 300 the tag is free resources with score 0.5, from
  300 up to but excluding 1000 it is paid courses with score 0.7, from 1000 on it is the
  custom plan with score 0.9. The tag is the third part of the label and the score the
  third of the collected scores. The three tags differ, so a budget of exactly 300 gives
  paid courses and not free resources.
\<close>

theorem budget_rule_partition:
  assumes "in_domain time level budget urgency style"
  shows "\<exists>s c. analyze_locals time level budget urgency style = Inr s \<and>
     analyze_learning_path time level budget urgency style =
       Inr (base_method s @ plus_sep @ knowledge_method s @ plus_sep @ budget_method s,
            c, reasoning s) \<and>
     (budget < 300 \<longrightarrow> budget_method s = m_free \<and> scores s ! 2 = f0_5) \<and>
     (300 \<le> budget \<and> budget < 1000 \<longrightarrow> budget_method s = m_paid \<and> scores s ! 2 = f0_7) \<and>
     (1000 \<le> budget \<longrightarrow> budget_method s = m_custom \<and> scores s ! 2 = f0_9) \<and>
     m_free \<noteq> m_paid \<and> m_paid \<noteq> m_custom \<and> m_free \<noteq> m_custom"
proof -
  from in_domain_style [OF assms] obtain a where a: "map_of style_adaptations style = Some a"
    by blast
  let ?s = "projr (analyze_locals time level budget urgency style)"
  have s: "analyze_locals time level budget urgency style = Inr ?s"
    by (simp add: analyze_locals_Some [OF a])
  from analyze_learning_path_Some [OF s] obtain c where
    c: "analyze_learning_path time level budget urgency style =
          Inr (recommendation ?s, c, reasoning ?s)"
    by blast
  have tags: "m_free \<noteq> m_paid \<and> m_paid \<noteq> m_custom \<and> m_free \<noteq> m_custom"
    by (simp add: m_free_def m_paid_def m_custom_def)
  have rule: "(budget < 300 \<longrightarrow> budget_method ?s = m_free \<and> scores ?s ! 2 = f0_5) \<and>
     (300 \<le> budget \<and> budget < 1000 \<longrightarrow> budget_method ?s = m_paid \<and> scores ?s ! 2 = f0_7) \<and>
     (1000 \<le> budget \<longrightarrow> budget_method ?s = m_custom \<and> scores ?s ! 2 = f0_9)"
    by (simp add: analyze_locals_Some [OF a])
  from s c tags rule show ?thesis
    unfolding recommendation_def by blast
qed

theorem budget_rule_partition_witness:
  "in_domain time_lt1h level_none 300 urgency_relaxed style_visual \<and>
   (\<exists>s c. analyze_locals time_lt1h level_none 300 urgency_relaxed style_visual = Inr s \<and>
      analyze_learning_path time_lt1h level_none 300 urgency_relaxed style_visual =
        Inr (base_method s @ plus_sep @ knowledge_method s @ plus_sep @ budget_method s,
             c, reasoning s) \<and>
      budget_method s = m_paid \<and> scores s ! 2 = f0_7 \<and> m_free \<noteq> m_paid)"
proof -
  have h: "in_domain time_lt1h level_none 300 urgency_relaxed style_visual"
    by (simp add: in_domain_def)
  show ?thesis
    using h budget_rule_partition [OF h] by auto
qed

text \<open>
  C6. For an input in the domain: when the urgency is urgent, the base method of the label
  is intensive training, whatever the time rule chose, and the urgency rule appends the
  score 0.8; otherwise the base method is the one the time rule chose and the urgency rule
  appends the score 0.6.
\<close>

theorem urgency_rule:
  assumes "in_domain time level budget urgency style"
  shows "\<exists>s c. analyze_locals time level budget urgency style = Inr s \<and>
     analyze_learning_path time level budget urgency style =
       Inr (base_method s @ plus_sep @ knowledge_method s @ plus_sep @ budget_method s,
            c, reasoning s) \<and>
     (urgency = urgency_urgent \<longrightarrow> base_method s = m_intensive \<and> scores s ! 3 = f0_8) \<and>
     (urgency \<noteq> urgency_urgent \<longrightarrow>
        base_method s = base_method (time_factor time init_locals) \<and> scores s ! 3 = f0_6)"
proof -
  from in_domain_style [OF assms] obtain a where a: "map_of style_adaptations style = Some a"
    by blast
  let ?s = "projr (analyze_locals time level budget urgency style)"
  have s: "analyze_locals time level budget urgency style = Inr ?s"
    by (simp add: analyze_locals_Some [OF a])
  from analyze_learning_path_Some [OF s] obtain c where
    c: "analyze_learning_path time level budget urgency style =
          Inr (recommendation ?s, c, reasoning ?s)"
    by blast
  have rule: "(urgency = urgency_urgent \<longrightarrow>
        base_method ?s = m_intensive \<and> scores ?s ! 3 = f0_8) \<and>
     (urgency \<noteq> urgency_urgent \<longrightarrow>
        base_method ?s = base_method (time_factor time init_locals) \<and> scores ?s ! 3 = f0_6)"
    by (simp add: analyze_locals_Some [OF a] time_factor_def init_locals_def)
  from s c rule show ?thesis
    unfolding recommendation_def by blast
qed

theorem urgency_rule_witness:
  "in_domain time_gt4h level_none 100 urgency_urgent style_reading \<and>
   (\<exists>s c. analyze_locals time_gt4h level_none 100 urgency_urgent style_reading = Inr s \<and>
      analyze_learning_path time_gt4h level_none 100 urgency_urgent style_reading =
        Inr (base_method s @ plus_sep @ knowledge_method s @ plus_sep @ budget_method s,
             c, reasoning s) \<and>
      base_method s = m_intensive \<and> scores s ! 3 = f0_8)"
proof -
  have h: "in_domain time_gt4h level_none 100 urgency_urgent style_reading"
    by (simp add: in_domain_def)
  show ?thesis
    using h urgency_rule [OF h] by auto
qed

text \<open>
  C7. For an input in the domain the function returns, and the confidence it returns is
  an integer between 0 and 100.
\<close>

theorem confidence_in_percent_range:
  assumes "in_domain time level budget urgency style"
  shows "\<exists>r c rs. analyze_learning_path time level budget urgency style = Inr (r, c, rs) \<and>
     0 \<le> c \<and> c \<le> 100"
proof -
  from in_domain_style [OF assms] obtain a where a: "map_of style_adaptations style = Some a"
    by blast
  let ?s = "projr (analyze_locals time level budget urgency style)"
  have s: "analyze_locals time level budget urgency style = Inr ?s"
    by (simp add: analyze_locals_Some [OF a])
  from analyze_learning_path_Some [OF s] obtain c where
    c: "confidence (scores ?s) = Inr c"
       "analyze_learning_path time level budget urgency style =
          Inr (recommendation ?s, c, reasoning ?s)"
    by blast
  from confidence_values [OF s] c(1) have "0 \<le> c \<and> c \<le> 100"
    by auto
  with c(2) show ?thesis by blast
qed

theorem confidence_in_percent_range_witness:
  "in_domain time_gt4h level_advanced 1500 urgency_relaxed style_visual \<and>
   (\<exists>r c rs. analyze_learning_path time_gt4h level_advanced 1500 urgency_relaxed style_visual
        = Inr (r, c, rs) \<and> 0 \<le> c \<and> c \<le> 100)"
proof -
  have h: "in_domain time_gt4h level_advanced 1500 urgency_relaxed style_visual"
    by (simp add: in_domain_def)
  show ?thesis
    using h confidence_in_percent_range [OF h] by simp
qed

text \<open>
  C10. For an input in the domain, the collected scores are the score of the time rule,
  of the knowledge rule, of the budget rule and of the urgency rule, in this order, one
  each; the style rule leaves the scores as they are. Each score is one of the literals
  0.5, 0.6, 0.7, 0.8, 0.9, and the confidence that is returned lies between 60 and 85.
\<close>

theorem four_scores_and_confidence_range:
  assumes "in_domain time level budget urgency style"
  shows "\<exists>s c. analyze_locals time level budget urgency style = Inr s \<and>
     analyze_learning_path time level budget urgency style =
       Inr (recommendation s, c, reasoning s) \<and>
     scores s = scores (time_factor time init_locals) @ scores (level_factor level init_locals)
       @ scores (budget_factor budget init_locals) @ scores (urgency_factor urgency init_locals) \<and>
     (\<forall>s0 s1. style_factor style s0 = Inr s1 \<longrightarrow> scores s1 = scores s0) \<and>
     length (scores s) = 4 \<and>
     set (scores s) \<subseteq> {f0_5, f0_6, f0_7, f0_8, f0_9} \<and>
     60 \<le> c \<and> c \<le> 85"
proof -
  from in_domain_style [OF assms] obtain a where a: "map_of style_adaptations style = Some a"
    by blast
  let ?s = "projr (analyze_locals time level budget urgency style)"
  have s: "analyze_locals time level budget urgency style = Inr ?s"
    by (simp add: analyze_locals_Some [OF a])
  from analyze_learning_path_Some [OF s] obtain c where
    c: "confidence (scores ?s) = Inr c"
       "analyze_learning_path time level budget urgency style =
          Inr (recommendation ?s, c, reasoning ?s)"
    by blast
  have parts: "scores ?s =
      scores (time_factor time init_locals) @ scores (level_factor level init_locals)
      @ scores (budget_factor budget init_locals) @ scores (urgency_factor urgency init_locals)"
    by (simp add: analyze_locals_Some [OF a] time_factor_def level_factor_def
        budget_factor_def urgency_factor_def init_locals_def)
  have style: "\<forall>s0 s1. style_factor style s0 = Inr s1 \<longrightarrow> scores s1 = scores s0"
    by (auto simp: style_factor_def split: option.splits)
  have four: "length (scores ?s) = 4"
    by (simp add: analyze_locals_scores [OF s])
  have lits: "set (scores ?s) \<subseteq> {f0_5, f0_6, f0_7, f0_8, f0_9}"
    by (simp add: analyze_locals_scores [OF s])
  from confidence_values [OF s] c(1) have range: "60 \<le> c \<and> c \<le> 85"
    by auto
  from s c(2) parts style four lits range show ?thesis
    by blast
qed

theorem four_scores_and_confidence_range_witness:
  "in_domain time_lt1h level_none 0 urgency_relaxed style_auditory \<and>
   (\<exists>s c. analyze_locals time_lt1h level_none 0 urgency_relaxed style_auditory = Inr s \<and>
      analyze_learning_path time_lt1h level_none 0 urgency_relaxed style_auditory =
        Inr (recommendation s, c, reasoning s) \<and>
      length (scores s) = 4 \<and> set (scores s) \<subseteq> {f0_5, f0_6, f0_7, f0_8, f0_9} \<and>
      60 \<le> c \<and> c \<le> 85)"
proof -
  have h: "in_domain time_lt1h level_none 0 urgency_relaxed style_auditory"
    by (simp add: in_domain_def)
  show ?thesis
    using h four_scores_and_confidence_range [OF h] by blast
qed

text \<open>
  C8. Take two calls with the same five arguments, each anywhere in a run of calls, the
  runs starting in any frames. The two calls return the same triple, or raise the same
  error: the outcome of a call is that of \<open>analyze_learning_path\<close> on its arguments,
  whatever the calls before it left behind.
\<close>

theorem repeated_calls_same_output:
  assumes "i < length calls" and "j < length calls'" and "calls ! i = calls' ! j"
  shows "run_calls frame calls ! i = run_calls frame' calls' ! j \<and>
     run_calls frame calls ! i =
       (case calls ! i of (time, level, budget, urgency, style) \<Rightarrow>
          analyze_learning_path time level budget urgency style)"
  using assms by (simp add: run_calls_map)

theorem repeated_calls_same_output_witness:
  "(0::nat) < length [(time_lt1h, level_none, 100, urgency_urgent, style_reading),
       (time_gt4h, level_advanced, 1500, urgency_relaxed, [0x5176, 0x4ED6])] \<and>
   (2::nat) < length [(time_2to4h, level_beginner, 500, urgency_moderate, style_handson),
       (time_gt4h, level_advanced, 1500, urgency_relaxed, style_visual),
       (time_lt1h, level_none, 100, urgency_urgent, style_reading)] \<and>
   run_calls init_locals
     [(time_lt1h, level_none, 100, urgency_urgent, style_reading),
      (time_gt4h, level_advanced, 1500, urgency_relaxed, [0x5176, 0x4ED6])] ! 0 =
   run_calls (init_locals\<lparr>scores := [f0_9], base_method := m_micro\<rparr>)
     [(time_2to4h, level_beginner, 500, urgency_moderate, style_handson),
      (time_gt4h, level_advanced, 1500, urgency_relaxed, style_visual),
      (time_lt1h, level_none, 100, urgency_urgent, style_reading)] ! 2"
  using repeated_calls_same_output
    [of 0 "[(time_lt1h, level_none, 100, urgency_urgent, style_reading),
            (time_gt4h, level_advanced, 1500, urgency_relaxed, [0x5176, 0x4ED6])]"
        2 "[(time_2to4h, level_beginner, 500, urgency_moderate, style_handson),
            (time_gt4h, level_advanced, 1500, urgency_relaxed, style_visual),
            (time_lt1h, level_none, 100, urgency_urgent, style_reading)]"
        init_locals "init_locals\<lparr>scores := [f0_9], base_method := m_micro\<rparr>"]
  by simp

text \<open>
  C9. Take two inputs in the domain. If every rule contributes to the second at least the
  score it contributes to the first (in particular when one input is changed so that its
  rule scores more, and the others are kept), the confidence of the second is at least the
  confidence of the first.
\<close>

theorem confidence_monotone:
  assumes "in_domain time level budget urgency style"
    and "in_domain time' level' budget' urgency' style'"
  shows "\<exists>s s' c c'. analyze_locals time level budget urgency style = Inr s \<and>
     analyze_locals time' level' budget' urgency' style' = Inr s' \<and>
     analyze_learning_path time level budget urgency style =
       Inr (recommendation s, c, reasoning s) \<and>
     analyze_learning_path time' level' budget' urgency' style' =
       Inr (recommendation s', c', reasoning s') \<and>
     (list_all2 (\<le>) (scores s) (scores s') \<longrightarrow> c \<le> c')"
proof -
  from in_domain_style [OF assms(1)] obtain a where
    a: "map_of style_adaptations style = Some a" by blast
  from in_domain_style [OF assms(2)] obtain a' where
    a': "map_of style_adaptations style' = Some a'" by blast
  let ?s = "projr (analyze_locals time level budget urgency style)"
  let ?s' = "projr (analyze_locals time' level' budget' urgency' style')"
  have s: "analyze_locals time level budget urgency style = Inr ?s"
    by (simp add: analyze_locals_Some [OF a])
  have s': "analyze_locals time' level' budget' urgency' style' = Inr ?s'"
    by (simp add: analyze_locals_Some [OF a'])
  from analyze_learning_path_Some [OF s] obtain c where
    c: "confidence (scores ?s) = Inr c"
       "analyze_learning_path time level budget urgency style =
          Inr (recommendation ?s, c, reasoning ?s)"
    by blast
  from analyze_learning_path_Some [OF s'] obtain c' where
    c': "confidence (scores ?s') = Inr c'"
        "analyze_learning_path time' level' budget' urgency' style' =
           Inr (recommendation ?s', c', reasoning ?s')"
    by blast
  obtain x1 x2 x3 x4 where x: "scores ?s = [x1, x2, x3, x4]"
    "x1 \<in> {f0_7, f0_9}" "x2 \<in> {f0_6, f0_8}" "x3 \<in> {f0_5, f0_7, f0_9}" "x4 \<in> {f0_8, f0_6}"
    using analyze_locals_scores [OF s] by simp
  obtain y1 y2 y3 y4 where y: "scores ?s' = [y1, y2, y3, y4]"
    "y1 \<in> {f0_7, f0_9}" "y2 \<in> {f0_6, f0_8}" "y3 \<in> {f0_5, f0_7, f0_9}" "y4 \<in> {f0_8, f0_6}"
    using analyze_locals_scores [OF s'] by simp
  have "list_all2 (\<le>) (scores ?s) (scores ?s') \<longrightarrow>
      projr (confidence (scores ?s)) \<le> projr (confidence (scores ?s'))"
    unfolding x(1) y(1)
    using confidence_table_monotone x(2-5) y(2-5) by blast
  then have mono: "list_all2 (\<le>) (scores ?s) (scores ?s') \<longrightarrow> c \<le> c'"
    by (simp add: c(1) c'(1))
  from s s' c(2) c'(2) mono show ?thesis
    by blast
qed

theorem confidence_monotone_witness:
  "in_domain time_lt1h level_none 100 urgency_relaxed style_visual \<and>
   in_domain time_lt1h level_none 100 urgency_urgent style_visual \<and>
   (\<exists>s s' c c'. analyze_locals time_lt1h level_none 100 urgency_relaxed style_visual = Inr s \<and>
      analyze_locals time_lt1h level_none 100 urgency_urgent style_visual = Inr s' \<and>
      analyze_learning_path time_lt1h level_none 100 urgency_relaxed style_visual =
        Inr (recommendation s, c, reasoning s) \<and>
      analyze_learning_path time_lt1h level_none 100 urgency_urgent style_visual =
        Inr (recommendation s', c', reasoning s') \<and>
      list_all2 (\<le>) (scores s) (scores s') \<and> c \<le> c')"
proof -
  have h: "in_domain time_lt1h level_none 100 urgency_relaxed style_visual"
    and h': "in_domain time_lt1h level_none 100 urgency_urgent style_visual"
    by (simp_all add: in_domain_def)
  from confidence_monotone [OF h h'] obtain s s' c c' where r:
    "analyze_locals time_lt1h level_none 100 urgency_relaxed style_visual = Inr s"
    "analyze_locals time_lt1h level_none 100 urgency_urgent style_visual = Inr s'"
    "analyze_learning_path time_lt1h level_none 100 urgency_relaxed style_visual =
       Inr (recommendation s, c, reasoning s)"
    "analyze_learning_path time_lt1h level_none 100 urgency_urgent style_visual =
       Inr (recommendation s', c', reasoning s')"
    "list_all2 (\<le>) (scores s) (scores s') \<longrightarrow> c \<le> c'"
    by blast
  have le: "list_all2 (\<le>) (scores s) (scores s')"
    unfolding analyze_locals_scores [OF r(1)] analyze_locals_scores [OF r(2)]
    by (simp add: literal_le)
  with r h h' show ?thesis by blast
qed

text \<open>
  C2. The claim reads: the confidence is the mean of the scores times 100, rounded (half to
  even or half up). The source takes \<open>int\<close> of the product, which truncates. For the
  input below the scores are 0.7, 0.6, 0.5, 0.8 and the binary64 product is just below 65:
  either rounding rule gives 65, and so does the exact mean times 100, while the function
  returns 64.
\<close>

theorem confidence_truncated_below_rounding:
  "in_domain time_lt1h level_none 100 urgency_urgent style_reading \<and>
   map_sum id scores (analyze_locals time_lt1h level_none 100 urgency_urgent style_reading)
     = Inr [f0_7, f0_6, f0_5, f0_8] \<and>
   map_sum id (fst \<circ> snd)
     (analyze_learning_path time_lt1h level_none 100 urgency_urgent style_reading) = Inr 64 \<and>
   spec_confidence round_half_even [f0_7, f0_6, f0_5, f0_8] = Inr 65 \<and>
   spec_confidence round_half_up [f0_7, f0_6, f0_5, f0_8] = Inr 65 \<and>
   round_half_even ((7 / 10 + 6 / 10 + 5 / 10 + 8 / 10) / 4 * 100) = 65"
proof -
  have "in_domain time_lt1h level_none 100 urgency_urgent style_reading"
    by (simp add: in_domain_def)
  moreover have "map_sum id scores
      (analyze_locals time_lt1h level_none 100 urgency_urgent style_reading)
      = Inr [f0_7, f0_6, f0_5, f0_8]"
    by (simp add: analyze_locals_Some [OF style_keys(4)])
  moreover have "map_sum id (fst \<circ> snd)
      (analyze_learning_path time_lt1h level_none 100 urgency_urgent style_reading) = Inr 64"
    by (simp add: analyze_learning_path_def analyze_locals_Some [OF style_keys(4)]
        confidence_table)
  moreover have "spec_confidence round_half_even [f0_7, f0_6, f0_5, f0_8] = Inr 65"
    by code_simp
  moreover have "spec_confidence round_half_up [f0_7, f0_6, f0_5, f0_8] = Inr 65"
    by code_simp
  moreover have "round_half_even ((7 / 10 + 6 / 10 + 5 / 10 + 8 / 10) / 4 * 100) = 65"
    by (simp add: round_half_even_def)
  ultimately show ?thesis
    by blast
qed

text \<open>
  What line 126 computes, for every input in the domain: the integer part of the binary64
  product of the binary64 mean of the four scores and 100.
\<close>

lemma confidence_is_truncation:
  assumes "in_domain time level budget urgency style"
  shows "\<exists>s m c. analyze_locals time level budget urgency style = Inr s \<and>
     np_mean (scores s) = Some m \<and>
     m = ddiv (foldl dadd 0 (scores s)) 4 \<and>
     analyze_learning_path time level budget urgency style =
       Inr (recommendation s, c, reasoning s) \<and>
     c = py_int (dmul m 100) \<and> c = \<lfloor>dmul m 100\<rfloor>"
proof -
  from in_domain_style [OF assms] obtain a where a: "map_of style_adaptations style = Some a"
    by blast
  let ?s = "projr (analyze_locals time level budget urgency style)"
  let ?m = "ddiv (foldl dadd 0 (scores ?s)) 4"
  have s: "analyze_locals time level budget urgency style = Inr ?s"
    by (simp add: analyze_locals_Some [OF a])
  from analyze_learning_path_Some [OF s] obtain c where
    c: "confidence (scores ?s) = Inr c"
       "analyze_learning_path time level budget urgency style =
          Inr (recommendation ?s, c, reasoning ?s)"
    by blast
  have m: "np_mean (scores ?s) = Some ?m"
    by (simp add: np_mean_def pairwise_sum_short analyze_locals_scores [OF s])
  from c(1) m have int: "c = py_int (dmul ?m 100)"
    by (simp add: confidence_def)
  from confidence_values [OF s] c(1) have "60 \<le> c"
    by auto
  with int have "0 \<le> dmul ?m 100"
    by (auto simp: py_int_def split: if_splits)
  with int have floor: "c = \<lfloor>dmul ?m 100\<rfloor>"
    by (simp add: py_int_def)
  from s m c(2) int floor show ?thesis
    by blast
qed

text \<open>
  C1. A style outside the four keys of \<open>style_adaptations\<close>, here the two-character string
  U+5176 U+4ED6 ("other"), with every other input in the domain: the lookup of line 111
  raises \<open>KeyError\<close> and the function returns nothing.
\<close>

theorem unknown_style_raises:
  "analyze_learning_path time_lt1h level_none 100 urgency_relaxed [0x5176, 0x4ED6] =
     Inl (KeyError [0x5176, 0x4ED6])"
proof -
  have "map_of style_adaptations [0x5176, 0x4ED6] = None"
    by (simp add: style_adaptations_def style_visual_def style_auditory_def
        style_handson_def style_reading_def)
  then show ?thesis
    by (simp add: analyze_learning_path_def analyze_locals_None)
qed

text \<open>
  C3. The two worked examples. The first returns the stated label and the confidence 80.
  The second returns the stated label, with the base method overwritten by intensive
  training, and the confidence 64, not 65: the binary64 sum of 0.7, 0.6, 0.5 and 0.8 is
  just below 2.6, and \<open>int\<close> truncates the product just below 65.
\<close>

theorem worked_examples:
  "analyze_learning_path time_gt4h level_advanced 1500 urgency_relaxed style_visual =
     Inr (m_systematic @ plus_sep @ m_project @ plus_sep @ m_custom, 80,
          [msg_time_ample, msg_level_solid, msg_budget_high,
           msg_style_prefix @ style_visual @ msg_style_suffix]) \<and>
   analyze_learning_path time_lt1h level_none 100 urgency_urgent style_reading =
     Inr (m_intensive @ plus_sep @ m_layered @ plus_sep @ m_free, 64,
          [msg_time_limited, msg_level_weak, msg_budget_low,
           msg_style_prefix @ style_reading @ msg_style_suffix, msg_urgent])"
  by (simp add: analyze_learning_path_def analyze_locals_Some [OF style_keys(1)]
      analyze_locals_Some [OF style_keys(4)] confidence_table recommendation_def
      option_distinct)


section \<open>The effectiveness lookup, spelled out\<close>

text \<open>\<open>str_in key method\<close> holds exactly when \<open>key\<close> is a contiguous part of \<open>method\<close>.\<close>

lemma starts_with_iff: "starts_with key s \<longleftrightarrow> (\<exists>ss. s = key @ ss)"
  by (induction key s rule: starts_with.induct) auto

lemma str_in_iff: "str_in key s \<longleftrightarrow> (\<exists>ps ss. s = ps @ key @ ss)"
proof (induction s)
  case Nil
  then show ?case by simp
next
  case (Cons c cs)
  show ?case
  proof
    assume "str_in key (c # cs)"
    then consider "starts_with key (c # cs)" | "str_in key cs" by auto
    then show "\<exists>ps ss. c # cs = ps @ key @ ss"
    proof cases
      case 1
      then obtain ss where "c # cs = key @ ss" by (auto simp: starts_with_iff)
      then have "c # cs = [] @ key @ ss" by simp
      then show ?thesis by blast
    next
      case 2
      with Cons.IH obtain ps ss where "cs = ps @ key @ ss" by blast
      then have "c # cs = (c # ps) @ key @ ss" by simp
      then show ?thesis by blast
    qed
  next
    assume "\<exists>ps ss. c # cs = ps @ key @ ss"
    then obtain ps ss where eq: "c # cs = ps @ key @ ss" by blast
    show "str_in key (c # cs)"
    proof (cases ps)
      case Nil
      with eq have "starts_with key (c # cs)" by (auto simp: starts_with_iff)
      then show ?thesis by simp
    next
      case (Cons p ps')
      with eq have "cs = ps' @ key @ ss" by simp
      with Cons.IH have "str_in key cs" by blast
      then show ?thesis by simp
    qed
  qed
qed

lemma Max_insert_max:
  fixes a b :: int
  assumes "finite M"
  shows "Max (insert (max a b) M) = Max (insert a (insert b M))"
proof (cases "M = {}")
  case True
  then show ?thesis by simp
next
  case False
  with assms show ?thesis by (simp add: max.assoc)
qed

text \<open>The loop keeps the maximum of the start value and the scores of the keys that match.\<close>

lemma foldl_max_matching:
  "foldl (\<lambda>score (key, v). if P key then max score v else score) (init :: int) tbl
     = Max (insert init (snd ` {kv \<in> set tbl. P (fst kv)}))"
proof (induction tbl arbitrary: init)
  case Nil
  then show ?case by simp
next
  case (Cons kv tbl)
  obtain k v where kv: "kv = (k, v)" by (cases kv)
  let ?M = "snd ` {kv \<in> set tbl. P (fst kv)}"
  have fin: "finite ?M" by simp
  show ?case
  proof (cases "P k")
    case True
    then have "{x \<in> set (kv # tbl). P (fst x)} = insert (k, v) {x \<in> set tbl. P (fst x)}"
      using kv by auto
    then have set: "snd ` {x \<in> set (kv # tbl). P (fst x)} = insert v ?M"
      by simp
    have "Max (insert (max init v) ?M) = Max (insert init (insert v ?M))"
      using fin by (rule Max_insert_max)
    with True show ?thesis
      using Cons.IH [of "max init v"] kv set by simp
  next
    case False
    then have "{x \<in> set (kv # tbl). P (fst x)} = {x \<in> set tbl. P (fst x)}"
      using kv by auto
    then have set: "snd ` {x \<in> set (kv # tbl). P (fst x)} = ?M"
      by simp
    with False show ?thesis
      using Cons.IH [of init] kv by simp
  qed
qed

lemma effectiveness_values:
  "snd ` set effectiveness_scores = {65, 70, 80, 85, 90}"
  by (auto simp: effectiveness_scores_def)

section \<open>Claims about \<open>calculate_expected_effectiveness\<close>\<close>

text \<open>
  C5. For every string, the result is at least 70 and is the maximum of 70 and the table
  scores of all keys that occur in the argument as substrings: it is 70 when no key
  occurs, it is the maximum score of the keys that occur when that is 70 or more, and it
  is 90 for a label in which both systematic learning (85) and custom plan (90) occur.
\<close>

theorem expected_effectiveness_max:
  "calculate_expected_effectiveness method =
     Max (insert 70 (snd ` {kv \<in> set effectiveness_scores. str_in (fst kv) method})) \<and>
   70 \<le> calculate_expected_effectiveness method \<and>
   (str_in m_systematic method \<and> str_in m_custom method \<longrightarrow>
      calculate_expected_effectiveness method = 90) \<and>
   ((\<forall>kv \<in> set effectiveness_scores. \<not> str_in (fst kv) method) \<longrightarrow>
      calculate_expected_effectiveness method = 70) \<and>
   ((\<exists>kv \<in> set effectiveness_scores. str_in (fst kv) method) \<and>
    70 \<le> Max (snd ` {kv \<in> set effectiveness_scores. str_in (fst kv) method}) \<longrightarrow>
      calculate_expected_effectiveness method =
        Max (snd ` {kv \<in> set effectiveness_scores. str_in (fst kv) method}))"
proof -
  let ?S = "insert 70 (snd ` {kv \<in> set effectiveness_scores. str_in (fst kv) method})"
  have eq: "calculate_expected_effectiveness method = Max ?S"
    unfolding calculate_expected_effectiveness_def by (rule foldl_max_matching)
  have fin: "finite ?S" by simp
  have floor: "70 \<le> Max ?S"
    using fin by (simp add: Max_ge_iff)
  have top: "Max ?S = 90" if "str_in m_custom method"
  proof (rule Max_eqI [OF fin])
    fix y assume "y \<in> ?S"
    then have "y = 70 \<or> y \<in> snd ` set effectiveness_scores" by auto
    then show "y \<le> 90" by (auto simp: effectiveness_values)
  next
    have "(m_custom, 90) \<in> {kv \<in> set effectiveness_scores. str_in (fst kv) method}"
      using that by (simp add: effectiveness_scores_def)
    then have "snd (m_custom, 90 :: int) \<in>
        snd ` {kv \<in> set effectiveness_scores. str_in (fst kv) method}"
      by (rule imageI)
    then show "90 \<in> ?S" by simp
  qed
  let ?M = "snd ` {kv \<in> set effectiveness_scores. str_in (fst kv) method}"
  have none: "Max ?S = 70" if "\<forall>kv \<in> set effectiveness_scores. \<not> str_in (fst kv) method"
  proof -
    from that have M: "?M = {}" by auto
    show ?thesis unfolding M by simp
  qed
  have some: "Max ?S = Max ?M"
    if "\<exists>kv \<in> set effectiveness_scores. str_in (fst kv) method" and "70 \<le> Max ?M"
  proof -
    from that(1) have ne: "?M \<noteq> {}" by auto
    have "finite ?M" by simp
    with ne have "Max ?S = max 70 (Max ?M)" by simp
    with that(2) show ?thesis by simp
  qed
  from eq floor top none some show ?thesis by simp
qed

theorem expected_effectiveness_max_witness:
  "str_in m_systematic (m_systematic @ plus_sep @ m_project @ plus_sep @ m_custom) \<and>
   str_in m_custom (m_systematic @ plus_sep @ m_project @ plus_sep @ m_custom) \<and>
   calculate_expected_effectiveness
     (m_systematic @ plus_sep @ m_project @ plus_sep @ m_custom) = 90"
proof -
  have a: "str_in m_systematic (m_systematic @ plus_sep @ m_project @ plus_sep @ m_custom)"
    by (simp add: str_in_iff) (metis append_Nil)
  have b: "str_in m_custom (m_systematic @ plus_sep @ m_project @ plus_sep @ m_custom)"
    by (simp add: str_in_iff) (metis append_Nil2 append_assoc)
  show ?thesis
    using a b expected_effectiveness_max
      [of "m_systematic @ plus_sep @ m_project @ plus_sep @ m_custom"]
    by simp
qed


end
